theory Spec2Isabelle
  imports Main
begin

section \<open>The annotation API views of h (src/h/views/api/annotations.py)\<close>

text \<open>
  The views are thin coordinators: each one validates its input, calls collaborators that
  live elsewhere (schemas, the write, delete, search-index and presentation services, the
  search library) and shapes a response. The embedding keeps the views as they are written
  and takes the collaborators as a record of functions, so that every statement below holds
  for any behaviour of the collaborators, raising included.

  \<^item> A Python exception is a value of type \<open>exn\<close>; a view returns \<open>exn + result\<close> together
    with the world it leaves behind, because a view that raises has still performed the
    calls it made before raising.
  \<^item> The world is the state owned by the collaborators (\<open>store\<close>: annotation storage and
    search index, of an arbitrary type) and the log of the calls the views made, in order
    (\<open>calls\<close>). \<open>request.notify_after_commit(event)\<close> only schedules the event, so it is a
    log entry \<open>Notify_after_commit event\<close>.
  \<^item> Collaborators that mutate (create, update, delete, index) return the new store, also
    when they raise. Collaborators that query (validation, search, presentation) read the
    store and return a value or raise.
  \<^item> \<open>request.find_service\<close> finds the service it is asked for: the lookup is the
    selection of a field of the record of collaborators.
\<close>

subsection \<open>Values\<close>

text \<open>Python values found in validated query parameters and validated payloads.\<close>

datatype pval = PNone | PBool bool | PInt int | PStr string | PList "pval list"

text \<open>Python truthiness, as used by \<open>if separate_replies:\<close>.\<close>

fun truthy :: "pval \<Rightarrow> bool" where
  "truthy PNone = False"
| "truthy (PBool b) = b"
| "truthy (PInt n) = (n \<noteq> 0)"
| "truthy (PStr s) = (s \<noteq> [])"
| "truthy (PList xs) = (xs \<noteq> [])"

text \<open>JSON-serialisable values: parsed payloads, presented annotations and response bodies.\<close>

datatype json = JNull | JBool bool | JInt int | JStr string | JList "json list"
  | JObject "(string \<times> json) list"

text \<open>The exceptions the views can end with. \<open>Raised name\<close> is any exception that comes out
  of a collaborator (a validation error, a payload error, a database or search error).\<close>

datatype exn = HTTPNotFound | KeyError string | Raised string

text \<open>\<open>dict.pop(key, default)\<close>: the value under the key (or the default) and the dictionary
  without the key.\<close>

definition pop :: "('k \<rightharpoonup> 'v) \<Rightarrow> 'k \<Rightarrow> 'v \<Rightarrow> 'v \<times> ('k \<rightharpoonup> 'v)" where
  "pop d key dflt = ((case d key of None \<Rightarrow> dflt | Some v \<Rightarrow> v), d(key := None))"

text \<open>\<open>d[key]\<close> on a dictionary raises \<open>KeyError\<close> when the key is missing.\<close>

definition getitem :: "(string \<rightharpoonup> 'v) \<Rightarrow> string \<Rightarrow> exn + 'v" where
  "getitem d key = (case d key of None \<Rightarrow> Inl (KeyError key) | Some v \<Rightarrow> Inr v)"

subsection \<open>Data model\<close>

text \<open>The attributes of an annotation that the views read: \<open>annotation.id\<close> (named \<open>id'\<close>:
  \<open>id\<close> is the identity function of HOL), \<open>annotation.target_uri\<close>, \<open>annotation.groupid\<close>.\<close>

record annotation =
  id' :: string
  target_uri :: string
  groupid :: string

text \<open>The traversal context of the single-annotation routes: \<open>context.annotation\<close>.\<close>

record annotation_context =
  annotation :: annotation

text \<open>What the views read from the request: \<open>request.params\<close>, the body that
  \<open>json_payload\<close> parses, \<open>request.user\<close> (\<open>None\<close> when nobody is logged in) and
  \<open>request.registry.settings\<close> (only the boolean switch \<open>h.dev\<close> is read).\<close>

record request =
  params :: "(string \<times> string) list"
  body :: string
  user :: "string option"
  settings :: "string \<rightharpoonup> bool"

text \<open>src/h/events.py: \<open>AnnotationEvent(request, annotation_id, action)\<close>. The constructor
  stores its three arguments; the \<open>Literal\<close> annotation on \<open>action\<close> is not checked at
  run time, so the field is a string.\<close>

record AnnotationEvent =
  ev_request :: request
  annotation_id :: string
  action :: string

text \<open>src/h/events.py: \<open>ModeratedAnnotationEvent(request, moderation_log_id)\<close>.\<close>

record ModeratedAnnotationEvent =
  mod_request :: request
  moderation_log_id :: int

text \<open>The value \<open>Search.run\<close> returns, as far as \<open>search\<close> reads it: \<open>result.total\<close> (named
  \<open>total'\<close>: \<open>total\<close> is a relation predicate of HOL), \<open>result.annotation_ids\<close>,
  \<open>result.reply_ids\<close>.\<close>

record search_result =
  total' :: int
  annotation_ids :: "string list"
  reply_ids :: "string list"

type_synonym query = "string \<rightharpoonup> pval"
type_synonym appstruct = "(string \<times> pval) list"

subsection \<open>Collaborators and the world\<close>

text \<open>One log entry for each call a view makes on a service, on the search library or on
  \<open>request.notify_after_commit\<close>, with the arguments of the call.\<close>

datatype call =
    Search_run request pval query
  | Present_all_for_user "string list" "string option"
  | Present_for_user annotation "string option"
  | Create_annotation appstruct
  | Update_annotation annotation appstruct
  | Notify_after_commit AnnotationEvent
  | Delete_annotation annotation
  | Add_annotation annotation bool

record 'db world =
  store :: 'db
  calls :: "call list"

text \<open>The collaborators, whose code is outside the views:
  \<^item> \<open>validate_query_params(SearchParamsSchema(), request.params)\<close>;
  \<^item> \<open>Search(request, separate_replies=...).run(params)\<close>;
  \<^item> the \<open>annotation_json\<close> service: \<open>present_all_for_user\<close>, \<open>present_for_user\<close>;
  \<^item> \<open>json_payload(request)\<close>;
  \<^item> \<open>CreateAnnotationSchema(request).validate\<close> and
    \<open>UpdateAnnotationSchema(request, target_uri, groupid).validate\<close>;
  \<^item> \<open>AnnotationWriteService\<close>: \<open>create_annotation\<close>, \<open>update_annotation\<close>;
  \<^item> the \<open>annotation_delete\<close> service: \<open>delete\<close> (here \<open>delete_service\<close>);
  \<^item> the \<open>search_index\<close> service: \<open>add_annotation(annotation, refresh)\<close>.\<close>

record 'db services =
  validate_query_params :: "'db \<Rightarrow> (string \<times> string) list \<Rightarrow> exn + query"
  search_run :: "'db \<Rightarrow> request \<Rightarrow> pval \<Rightarrow> query \<Rightarrow> exn + search_result"
  present_all_for_user :: "'db \<Rightarrow> string list \<Rightarrow> string option \<Rightarrow> exn + json list"
  present_for_user :: "'db \<Rightarrow> annotation \<Rightarrow> string option \<Rightarrow> exn + json"
  json_payload :: "request \<Rightarrow> exn + json"
  create_schema_validate :: "'db \<Rightarrow> request \<Rightarrow> json \<Rightarrow> exn + appstruct"
  update_schema_validate :: "'db \<Rightarrow> request \<Rightarrow> string \<Rightarrow> string \<Rightarrow> json \<Rightarrow> exn + appstruct"
  create_annotation :: "'db \<Rightarrow> appstruct \<Rightarrow> (exn + annotation) \<times> 'db"
  update_annotation :: "'db \<Rightarrow> annotation \<Rightarrow> appstruct \<Rightarrow> (exn + annotation) \<times> 'db"
  delete_service :: "'db \<Rightarrow> annotation \<Rightarrow> (exn + unit) \<times> 'db"
  add_annotation :: "'db \<Rightarrow> annotation \<Rightarrow> bool \<Rightarrow> (exn + unit) \<times> 'db"

text \<open>A call is logged when it is made, before its outcome is known.\<close>

definition called :: "call \<Rightarrow> 'db world \<Rightarrow> 'db world" where
  "called c w = w\<lparr>calls := calls w @ [c]\<rparr>"

subsection \<open>The views\<close>

text \<open>\<open>_publish_annotation_event(request, annotation, action)\<close>: build the event from
  \<open>annotation.id\<close> and hand it to \<open>request.notify_after_commit\<close>.\<close>

definition publish_annotation_event ::
  "request \<Rightarrow> annotation \<Rightarrow> string \<Rightarrow> 'db world \<Rightarrow> 'db world" where
  "publish_annotation_event request ann act w =
     (let event = \<lparr>ev_request = request, annotation_id = id' ann, action = act\<rparr>
      in called (Notify_after_commit event) w)"

text \<open>\<open>search(request)\<close>. \<open>params.pop\<close> changes the dictionary in place, so the dictionary
  that reaches \<open>run\<close> is the one without the key.\<close>

definition search ::
  "'db services \<Rightarrow> request \<Rightarrow> 'db world \<Rightarrow> (exn + (string \<rightharpoonup> json)) \<times> 'db world" where
  "search svc request w =
     (case validate_query_params svc (store w) (params request) of
        Inl e \<Rightarrow> (Inl e, w)
      | Inr validated \<Rightarrow>
          (case pop validated ''_separate_replies'' (PBool False) of
             (separate_replies, params1) \<Rightarrow>
               (let w1 = called (Search_run request separate_replies params1) w in
                case search_run svc (store w1) request separate_replies params1 of
                  Inl e \<Rightarrow> (Inl e, w1)
                | Inr result \<Rightarrow>
                    (let w2 = called (Present_all_for_user (annotation_ids result) (user request)) w1 in
                     case present_all_for_user svc (store w2) (annotation_ids result) (user request) of
                       Inl e \<Rightarrow> (Inl e, w2)
                     | Inr rows \<Rightarrow>
                         (let out = [''total'' \<mapsto> JInt (total' result), ''rows'' \<mapsto> JList rows] in
                          if truthy separate_replies then
                            (let w3 = called (Present_all_for_user (reply_ids result) (user request)) w2 in
                             case present_all_for_user svc (store w3) (reply_ids result) (user request) of
                               Inl e \<Rightarrow> (Inl e, w3)
                             | Inr replies \<Rightarrow> (Inr (out(''replies'' \<mapsto> JList replies)), w3))
                          else (Inr out, w2))))))"

text \<open>\<open>create(request)\<close>.\<close>

definition create :: "'db services \<Rightarrow> request \<Rightarrow> 'db world \<Rightarrow> (exn + json) \<times> 'db world" where
  "create svc request w =
     (case json_payload svc request of
        Inl e \<Rightarrow> (Inl e, w)
      | Inr payload \<Rightarrow>
          (case create_schema_validate svc (store w) request payload of
             Inl e \<Rightarrow> (Inl e, w)
           | Inr appstruct \<Rightarrow>
               (let w1 = called (Create_annotation appstruct) w in
                case create_annotation svc (store w1) appstruct of
                  (Inl e, db) \<Rightarrow> (Inl e, w1\<lparr>store := db\<rparr>)
                | (Inr ann, db) \<Rightarrow>
                    (let w2 = publish_annotation_event request ann ''create'' (w1\<lparr>store := db\<rparr>);
                         w3 = called (Present_for_user ann (user request)) w2
                     in (present_for_user svc (store w3) ann (user request), w3)))))"

text \<open>\<open>read(context, request)\<close>.\<close>

definition read ::
  "'db services \<Rightarrow> annotation_context \<Rightarrow> request \<Rightarrow> 'db world \<Rightarrow> (exn + json) \<times> 'db world" where
  "read svc context' request w =
     (let w1 = called (Present_for_user (annotation context') (user request)) w
      in (present_for_user svc (store w1) (annotation context') (user request), w1))"

text \<open>\<open>update(context, request)\<close>.\<close>

definition update ::
  "'db services \<Rightarrow> annotation_context \<Rightarrow> request \<Rightarrow> 'db world \<Rightarrow> (exn + json) \<times> 'db world" where
  "update svc context' request w =
     (case json_payload svc request of
        Inl e \<Rightarrow> (Inl e, w)
      | Inr payload \<Rightarrow>
          (case update_schema_validate svc (store w) request
                  (target_uri (annotation context')) (groupid (annotation context')) payload of
             Inl e \<Rightarrow> (Inl e, w)
           | Inr appstruct \<Rightarrow>
               (let w1 = called (Update_annotation (annotation context') appstruct) w in
                case update_annotation svc (store w1) (annotation context') appstruct of
                  (Inl e, db) \<Rightarrow> (Inl e, w1\<lparr>store := db\<rparr>)
                | (Inr ann, db) \<Rightarrow>
                    (let w2 = publish_annotation_event request ann ''update'' (w1\<lparr>store := db\<rparr>);
                         w3 = called (Present_for_user ann (user request)) w2
                     in (present_for_user svc (store w3) ann (user request), w3)))))"

text \<open>\<open>delete(context, request)\<close>.\<close>

definition delete ::
  "'db services \<Rightarrow> annotation_context \<Rightarrow> request \<Rightarrow> 'db world
     \<Rightarrow> (exn + (string \<rightharpoonup> json)) \<times> 'db world" where
  "delete svc context' request w =
     (let w1 = called (Delete_annotation (annotation context')) w in
      case delete_service svc (store w1) (annotation context') of
        (Inl e, db) \<Rightarrow> (Inl e, w1\<lparr>store := db\<rparr>)
      | (Inr u, db) \<Rightarrow>
          (Inr [''id'' \<mapsto> JStr (id' (annotation context')), ''deleted'' \<mapsto> JBool True],
           w1\<lparr>store := db\<rparr>))"

text \<open>\<open>reindex(context, request)\<close>.\<close>

definition reindex ::
  "'db services \<Rightarrow> annotation_context \<Rightarrow> request \<Rightarrow> 'db world
     \<Rightarrow> (exn + (string \<rightharpoonup> json)) \<times> 'db world" where
  "reindex svc context' request w =
     (case getitem (settings request) ''h.dev'' of
        Inl e \<Rightarrow> (Inl e, w)
      | Inr dev \<Rightarrow>
          if \<not> dev then (Inl HTTPNotFound, w)
          else
            (let w1 = called (Add_annotation (annotation context') True) w in
             case add_annotation svc (store w1) (annotation context') True of
               (Inl e, db) \<Rightarrow> (Inl e, w1\<lparr>store := db\<rparr>)
             | (Inr u, db) \<Rightarrow>
                 (Inr [''id'' \<mapsto> JStr (id' (annotation context')), ''indexed'' \<mapsto> JBool True],
                  w1\<lparr>store := db\<rparr>)))"

subsection \<open>Observing the log\<close>

text \<open>The calls a view added to the log: what the log holds after the view, beyond what it
  held before.\<close>

definition new_calls :: "'db world \<Rightarrow> 'db world \<Rightarrow> call list" where
  "new_calls w w' = drop (length (calls w)) (calls w')"

text \<open>The events handed to \<open>notify_after_commit\<close>, in order.\<close>

primrec scheduled_events :: "call list \<Rightarrow> AnnotationEvent list" where
  "scheduled_events [] = []"
| "scheduled_events (c # cs) =
     (case c of Notify_after_commit ev \<Rightarrow> [ev] | _ \<Rightarrow> []) @ scheduled_events cs"

text \<open>The calls on the presentation service, bulk or per annotation, in order.\<close>

primrec presentation_calls :: "call list \<Rightarrow> call list" where
  "presentation_calls [] = []"
| "presentation_calls (c # cs) =
     (case c of Present_all_for_user ids u \<Rightarrow> [c] | Present_for_user a u \<Rightarrow> [c] | _ \<Rightarrow> [])
     @ presentation_calls cs"

text \<open>The identifier sequences of the bulk presentation calls, in order.\<close>

primrec presented_ids :: "call list \<Rightarrow> string list list" where
  "presented_ids [] = []"
| "presented_ids (c # cs) =
     (case c of Present_all_for_user ids u \<Rightarrow> [ids] | _ \<Rightarrow> []) @ presented_ids cs"

text \<open>The flag and the parameters of each \<open>Search(...).run(params)\<close>, in order.\<close>

primrec search_runs :: "call list \<Rightarrow> (pval \<times> query) list" where
  "search_runs [] = []"
| "search_runs (c # cs) =
     (case c of Search_run r sep q \<Rightarrow> [(sep, q)] | _ \<Rightarrow> []) @ search_runs cs"

text \<open>The annotation and the \<open>refresh\<close> argument of each \<open>search_index.add_annotation\<close>, in
  order.\<close>

primrec index_updates :: "call list \<Rightarrow> (annotation \<times> bool) list" where
  "index_updates [] = []"
| "index_updates (c # cs) =
     (case c of Add_annotation a refresh \<Rightarrow> [(a, refresh)] | _ \<Rightarrow> []) @ index_updates cs"

text \<open>src/h/events.py: \<open>AnnotationAction = Literal["create", "update", "delete"]\<close>.\<close>

definition AnnotationAction :: "string set" where
  "AnnotationAction = {''create'', ''update'', ''delete''}"

text \<open>Modelled from the spec: the code of \<open>h.search.Search.run\<close> is not among the sources.
  The spec's data model gives its result the invariant "reply identifiers are disjoint from
  primary identifiers".\<close>

definition search_result_invariant :: "search_result \<Rightarrow> bool" where
  "search_result_invariant r \<longleftrightarrow> set (annotation_ids r) \<inter> set (reply_ids r) = {}"

subsection \<open>A concrete set of collaborators\<close>

text \<open>Collaborators over a store that is the list of stored annotations, used to run the
  views on concrete requests. The search answers as in the scenario of the spec: a total of
  2, the primary identifier \<open>a1\<close> and, when replies are separated, the reply \<open>r1\<close>.\<close>

definition example_annotation :: annotation where
  "example_annotation = \<lparr>id' = ''ann1'', target_uri = ''http://x'', groupid = ''__world__''\<rparr>"

definition example_services :: "annotation list services" where
  "example_services =
     \<lparr>validate_query_params =
        (\<lambda>db raw. Inr (map_of (map (\<lambda>(k, v). (k, if v = ''true'' then PBool True else PStr v)) raw))),
      search_run =
        (\<lambda>db r sep q. Inr \<lparr>total' = 2, annotation_ids = [''a1''],
                             reply_ids = (if truthy sep then [''r1''] else [])\<rparr>),
      present_all_for_user = (\<lambda>db ids u. Inr (map (\<lambda>i. JObject [(''id'', JStr i)]) ids)),
      present_for_user = (\<lambda>db a u. Inr (JObject [(''id'', JStr (id' a))])),
      json_payload = (\<lambda>r. Inr (JStr (body r))),
      create_schema_validate =
        (\<lambda>db r payload. Inr [(''text'', PStr ''hi''), (''target_uri'', PStr ''http://x'')]),
      update_schema_validate = (\<lambda>db r uri grp payload. Inr [(''text'', PStr ''hello'')]),
      create_annotation = (\<lambda>db data. (Inr example_annotation, db @ [example_annotation])),
      update_annotation = (\<lambda>db a data. (Inr a, db)),
      delete_service = (\<lambda>db a. (Inr (), filter (\<lambda>x. id' x \<noteq> id' a) db)),
      add_annotation = (\<lambda>db a refresh. (Inr (), db))\<rparr>"

text \<open>The same collaborators with a storage and a search index that are down.\<close>

definition failing_services :: "annotation list services" where
  "failing_services =
     example_services
       \<lparr>create_annotation := (\<lambda>db data. (Inl (Raised ''OperationalError''), db)),
        update_annotation := (\<lambda>db a data. (Inl (Raised ''OperationalError''), db)),
        add_annotation := (\<lambda>db a refresh. (Inl (Raised ''ConnectionError''), db))\<rparr>"

definition example_request :: request where
  "example_request =
     \<lparr>params = [(''q'', ''foo''), (''_separate_replies'', ''true'')],
      body = ''text=hi'',
      user = Some ''acct:jo@example.com'',
      settings = [''h.dev'' \<mapsto> True]\<rparr>"

definition production_request :: request where
  "production_request = example_request\<lparr>settings := [''h.dev'' \<mapsto> False]\<rparr>"

text \<open>A search request that does not ask for separate replies.\<close>

definition plain_request :: request where
  "plain_request = example_request\<lparr>params := [(''q'', ''foo'')]\<rparr>"

definition example_context :: annotation_context where
  "example_context = \<lparr>annotation = example_annotation\<rparr>"

definition example_world :: "annotation list world" where
  "example_world = \<lparr>store = [example_annotation], calls = []\<rparr>"

section \<open>What each view does, path by path\<close>

lemma new_calls_append: "calls w' = calls w @ cs \<Longrightarrow> new_calls w w' = cs"
  by (simp add: new_calls_def)

lemma create_persisted:
  assumes "json_payload svc request = Inr payload"
      and "create_schema_validate svc (store w) request payload = Inr appstruct"
      and "create_annotation svc (store w) appstruct = (Inr ann, db)"
  shows "create svc request w =
           (present_for_user svc db ann (user request),
            \<lparr>store = db,
             calls = calls w @
               [Create_annotation appstruct,
                Notify_after_commit \<lparr>ev_request = request, annotation_id = id' ann, action = ''create''\<rparr>,
                Present_for_user ann (user request)]\<rparr>)"
  using assms by (simp add: create_def called_def publish_annotation_event_def)

lemma create_failed:
  assumes "json_payload svc request = Inr payload"
      and "create_schema_validate svc (store w) request payload = Inr appstruct"
      and "create_annotation svc (store w) appstruct = (Inl e, db)"
  shows "create svc request w =
           (Inl e, \<lparr>store = db, calls = calls w @ [Create_annotation appstruct]\<rparr>)"
  using assms by (simp add: create_def called_def)

lemma update_persisted:
  assumes "json_payload svc request = Inr payload"
      and "update_schema_validate svc (store w) request (target_uri (annotation ctx))
             (groupid (annotation ctx)) payload = Inr appstruct"
      and "update_annotation svc (store w) (annotation ctx) appstruct = (Inr ann, db)"
  shows "update svc ctx request w =
           (present_for_user svc db ann (user request),
            \<lparr>store = db,
             calls = calls w @
               [Update_annotation (annotation ctx) appstruct,
                Notify_after_commit \<lparr>ev_request = request, annotation_id = id' ann, action = ''update''\<rparr>,
                Present_for_user ann (user request)]\<rparr>)"
  using assms by (simp add: update_def called_def publish_annotation_event_def)

lemma update_failed:
  assumes "json_payload svc request = Inr payload"
      and "update_schema_validate svc (store w) request (target_uri (annotation ctx))
             (groupid (annotation ctx)) payload = Inr appstruct"
      and "update_annotation svc (store w) (annotation ctx) appstruct = (Inl e, db)"
  shows "update svc ctx request w =
           (Inl e, \<lparr>store = db, calls = calls w @ [Update_annotation (annotation ctx) appstruct]\<rparr>)"
  using assms by (simp add: update_def called_def)

lemma delete_done:
  assumes "delete_service svc (store w) (annotation ctx) = (Inr u, db)"
  shows "delete svc ctx request w =
           (Inr [''id'' \<mapsto> JStr (id' (annotation ctx)), ''deleted'' \<mapsto> JBool True],
            \<lparr>store = db, calls = calls w @ [Delete_annotation (annotation ctx)]\<rparr>)"
  using assms by (simp add: delete_def called_def)

lemma reindex_production:
  "settings request ''h.dev'' = Some False \<Longrightarrow> reindex svc ctx request w = (Inl HTTPNotFound, w)"
  by (simp add: reindex_def getitem_def)

lemma reindex_dev:
  "settings request ''h.dev'' = Some True \<Longrightarrow>
   reindex svc ctx request w =
     (case add_annotation svc (store w) (annotation ctx) True of
        (Inl e, db) \<Rightarrow>
          (Inl e, \<lparr>store = db, calls = calls w @ [Add_annotation (annotation ctx) True]\<rparr>)
      | (Inr u, db) \<Rightarrow>
          (Inr [''id'' \<mapsto> JStr (id' (annotation ctx)), ''indexed'' \<mapsto> JBool True],
           \<lparr>store = db, calls = calls w @ [Add_annotation (annotation ctx) True]\<rparr>))"
  by (simp add: reindex_def getitem_def called_def split: prod.splits sum.splits)

lemma read_unfold:
  "read svc ctx request w =
     (present_for_user svc (store w) (annotation ctx) (user request),
      \<lparr>store = store w, calls = calls w @ [Present_for_user (annotation ctx) (user request)]\<rparr>)"
  by (simp add: read_def called_def)

lemma search_invalid:
  "validate_query_params svc (store w) (params request) = Inl e \<Longrightarrow>
   search svc request w = (Inl e, w)"
  by (simp add: search_def)

lemma search_unavailable:
  assumes "validate_query_params svc (store w) (params request) = Inr validated"
      and "pop validated ''_separate_replies'' (PBool False) = (separate_replies, params1)"
      and "search_run svc (store w) request separate_replies params1 = Inl e"
  shows "search svc request w =
           (Inl e, \<lparr>store = store w, calls = calls w @ [Search_run request separate_replies params1]\<rparr>)"
  using assms by (simp add: search_def called_def)

lemma search_found:
  assumes "validate_query_params svc (store w) (params request) = Inr validated"
      and "pop validated ''_separate_replies'' (PBool False) = (separate_replies, params1)"
      and "search_run svc (store w) request separate_replies params1 = Inr result"
  shows "search svc request w =
     (case present_all_for_user svc (store w) (annotation_ids result) (user request) of
        Inl e \<Rightarrow>
          (Inl e,
           \<lparr>store = store w,
            calls = calls w @
              [Search_run request separate_replies params1,
               Present_all_for_user (annotation_ids result) (user request)]\<rparr>)
      | Inr rows \<Rightarrow>
          if truthy separate_replies then
            (case present_all_for_user svc (store w) (reply_ids result) (user request) of
               Inl e \<Rightarrow>
                 (Inl e,
                  \<lparr>store = store w,
                   calls = calls w @
                     [Search_run request separate_replies params1,
                      Present_all_for_user (annotation_ids result) (user request),
                      Present_all_for_user (reply_ids result) (user request)]\<rparr>)
             | Inr replies \<Rightarrow>
                 (Inr [''total'' \<mapsto> JInt (total' result), ''rows'' \<mapsto> JList rows,
                       ''replies'' \<mapsto> JList replies],
                  \<lparr>store = store w,
                   calls = calls w @
                     [Search_run request separate_replies params1,
                      Present_all_for_user (annotation_ids result) (user request),
                      Present_all_for_user (reply_ids result) (user request)]\<rparr>))
          else
            (Inr [''total'' \<mapsto> JInt (total' result), ''rows'' \<mapsto> JList rows],
             \<lparr>store = store w,
              calls = calls w @
                [Search_run request separate_replies params1,
                 Present_all_for_user (annotation_ids result) (user request)]\<rparr>))"
  using assms by (simp add: search_def called_def split: sum.splits)

lemma scheduled_events_create:
  "set (scheduled_events (new_calls w (snd (create svc request w))))
     \<subseteq> {ev. action ev = ''create''}"
  by (auto simp add: create_def called_def publish_annotation_event_def new_calls_def Let_def
        split: sum.splits prod.splits)

lemma scheduled_events_update:
  "set (scheduled_events (new_calls w (snd (update svc ctx request w))))
     \<subseteq> {ev. action ev = ''update''}"
  by (auto simp add: update_def called_def publish_annotation_event_def new_calls_def Let_def
        split: sum.splits prod.splits)

lemma scheduled_events_delete:
  "scheduled_events (new_calls w (snd (delete svc ctx request w))) = []"
  by (simp add: delete_def called_def new_calls_def Let_def split: sum.splits prod.splits)

lemma scheduled_events_read:
  "scheduled_events (new_calls w (snd (read svc ctx request w))) = []"
  by (simp add: read_unfold new_calls_def)

lemma scheduled_events_reindex:
  "scheduled_events (new_calls w (snd (reindex svc ctx request w))) = []"
  by (simp add: reindex_def getitem_def called_def new_calls_def Let_def
        split: sum.splits prod.splits option.splits)

lemma scheduled_events_search:
  "scheduled_events (new_calls w (snd (search svc request w))) = []"
  by (simp add: search_def called_def new_calls_def Let_def split: sum.splits prod.splits)

section \<open>Write coordinator: create and update\<close>

text \<open>
  Claim C1. Whenever \<open>schema.validate(json_payload(request))\<close> returns and the write service
  returns an annotation, \<open>create\<close> (and likewise \<open>update\<close>) adds to the log exactly: the call
  on the write service, then one \<open>notify_after_commit\<close> of an event whose action is
  \<open>create\<close> (\<open>update\<close>) and whose \<open>annotation_id\<close> is the id of the annotation the write
  service returned, then the presentation call. So exactly one event is scheduled, it is the
  matching one, and it comes after the mutation: its \<open>annotation_id\<close> is read from the
  value the write service returned, it follows the write call in the log, and the store
  the view leaves behind is the one the write service returned. This holds whatever the
  presentation service does afterwards.
\<close>

theorem write_schedules_one_event_after_mutation:
  "(json_payload svc request = Inr payload \<longrightarrow>
    create_schema_validate svc (store w) request payload = Inr appstruct \<longrightarrow>
    create_annotation svc (store w) appstruct = (Inr ann, db) \<longrightarrow>
      calls (snd (create svc request w)) =
        calls w @
          [Create_annotation appstruct,
           Notify_after_commit \<lparr>ev_request = request, annotation_id = id' ann, action = ''create''\<rparr>,
           Present_for_user ann (user request)]
      \<and> scheduled_events (new_calls w (snd (create svc request w))) =
          [\<lparr>ev_request = request, annotation_id = id' ann, action = ''create''\<rparr>]
      \<and> store (snd (create svc request w)) = db)
   \<and> (json_payload svc request = Inr payload \<longrightarrow>
      update_schema_validate svc (store w) request (target_uri (annotation ctx))
        (groupid (annotation ctx)) payload = Inr appstruct' \<longrightarrow>
      update_annotation svc (store w) (annotation ctx) appstruct' = (Inr ann', db') \<longrightarrow>
        calls (snd (update svc ctx request w)) =
          calls w @
            [Update_annotation (annotation ctx) appstruct',
             Notify_after_commit \<lparr>ev_request = request, annotation_id = id' ann', action = ''update''\<rparr>,
             Present_for_user ann' (user request)]
        \<and> scheduled_events (new_calls w (snd (update svc ctx request w))) =
            [\<lparr>ev_request = request, annotation_id = id' ann', action = ''update''\<rparr>]
        \<and> store (snd (update svc ctx request w)) = db')"
  by (simp add: create_persisted update_persisted new_calls_append)

theorem write_schedules_one_event_after_mutation_witness:
  "json_payload example_services example_request = Inr (JStr ''text=hi'')
   \<and> create_schema_validate example_services (store example_world) example_request (JStr ''text=hi'')
       = Inr [(''text'', PStr ''hi''), (''target_uri'', PStr ''http://x'')]
   \<and> create_annotation example_services (store example_world)
         [(''text'', PStr ''hi''), (''target_uri'', PStr ''http://x'')]
       = (Inr example_annotation, [example_annotation, example_annotation])
   \<and> scheduled_events (new_calls example_world (snd (create example_services example_request example_world)))
       = [\<lparr>ev_request = example_request, annotation_id = ''ann1'', action = ''create''\<rparr>]
   \<and> update_schema_validate example_services (store example_world) example_request
         (target_uri (annotation example_context)) (groupid (annotation example_context))
         (JStr ''text=hi'')
       = Inr [(''text'', PStr ''hello'')]
   \<and> update_annotation example_services (store example_world) (annotation example_context)
         [(''text'', PStr ''hello'')]
       = (Inr example_annotation, [example_annotation])
   \<and> scheduled_events
         (new_calls example_world (snd (update example_services example_context example_request example_world)))
       = [\<lparr>ev_request = example_request, annotation_id = ''ann1'', action = ''update''\<rparr>]"
  using write_schedules_one_event_after_mutation
    [of example_services example_request "JStr ''text=hi''" example_world
        "[(''text'', PStr ''hi''), (''target_uri'', PStr ''http://x'')]"
        example_annotation "[example_annotation, example_annotation]" example_context
        "[(''text'', PStr ''hello'')]" example_annotation "[example_annotation]"]
  by (simp add: example_services_def example_request_def example_world_def example_annotation_def
        example_context_def)

text \<open>
  Claim C2. Whenever the write service raises, \<open>create\<close> (and likewise \<open>update\<close>) ends with
  that same exception, the only call it has added to the log is the call on the write
  service, and no event is scheduled.
\<close>

theorem write_failure_schedules_no_event:
  "(json_payload svc request = Inr payload \<longrightarrow>
    create_schema_validate svc (store w) request payload = Inr appstruct \<longrightarrow>
    create_annotation svc (store w) appstruct = (Inl e, db) \<longrightarrow>
      fst (create svc request w) = Inl e
      \<and> calls (snd (create svc request w)) = calls w @ [Create_annotation appstruct]
      \<and> scheduled_events (new_calls w (snd (create svc request w))) = [])
   \<and> (json_payload svc request = Inr payload \<longrightarrow>
      update_schema_validate svc (store w) request (target_uri (annotation ctx))
        (groupid (annotation ctx)) payload = Inr appstruct' \<longrightarrow>
      update_annotation svc (store w) (annotation ctx) appstruct' = (Inl e', db') \<longrightarrow>
        fst (update svc ctx request w) = Inl e'
        \<and> calls (snd (update svc ctx request w)) =
            calls w @ [Update_annotation (annotation ctx) appstruct']
        \<and> scheduled_events (new_calls w (snd (update svc ctx request w))) = [])"
  by (simp add: create_failed update_failed new_calls_append)

theorem write_failure_schedules_no_event_witness:
  "json_payload failing_services example_request = Inr (JStr ''text=hi'')
   \<and> create_schema_validate failing_services (store example_world) example_request (JStr ''text=hi'')
       = Inr [(''text'', PStr ''hi''), (''target_uri'', PStr ''http://x'')]
   \<and> create_annotation failing_services (store example_world)
         [(''text'', PStr ''hi''), (''target_uri'', PStr ''http://x'')]
       = (Inl (Raised ''OperationalError''), [example_annotation])
   \<and> fst (create failing_services example_request example_world) = Inl (Raised ''OperationalError'')
   \<and> scheduled_events (new_calls example_world (snd (create failing_services example_request example_world)))
       = []
   \<and> update_schema_validate failing_services (store example_world) example_request
         (target_uri (annotation example_context)) (groupid (annotation example_context))
         (JStr ''text=hi'')
       = Inr [(''text'', PStr ''hello'')]
   \<and> update_annotation failing_services (store example_world) (annotation example_context)
         [(''text'', PStr ''hello'')]
       = (Inl (Raised ''OperationalError''), [example_annotation])
   \<and> fst (update failing_services example_context example_request example_world)
       = Inl (Raised ''OperationalError'')
   \<and> scheduled_events
         (new_calls example_world (snd (update failing_services example_context example_request example_world)))
       = []"
  using write_failure_schedules_no_event
    [of failing_services example_request "JStr ''text=hi''" example_world
        "[(''text'', PStr ''hi''), (''target_uri'', PStr ''http://x'')]"
        "Raised ''OperationalError''" "[example_annotation]" example_context
        "[(''text'', PStr ''hello'')]" "Raised ''OperationalError''" "[example_annotation]"]
  by (simp add: failing_services_def example_services_def example_request_def example_world_def
        example_annotation_def example_context_def)

section \<open>Delete coordinator\<close>

text \<open>
  Claim C5. Whenever the deletion service returns, \<open>delete\<close> answers the dictionary with
  exactly the two keys \<open>id\<close> and \<open>deleted\<close>, holding the id of the context's annotation and
  \<open>True\<close>, and the view itself hands no event to \<open>notify_after_commit\<close>.
\<close>

theorem delete_acknowledges_without_event:
  assumes "delete_service svc (store w) (annotation ctx) = (Inr u, db)"
  shows "fst (delete svc ctx request w) =
           Inr [''id'' \<mapsto> JStr (id' (annotation ctx)), ''deleted'' \<mapsto> JBool True]
         \<and> dom [''id'' \<mapsto> JStr (id' (annotation ctx)), ''deleted'' \<mapsto> JBool True]
             = {''id'', ''deleted''}
         \<and> scheduled_events (new_calls w (snd (delete svc ctx request w))) = []"
  using assms by (auto simp add: delete_done new_calls_append)

theorem delete_acknowledges_without_event_witness:
  "delete_service example_services (store example_world) (annotation example_context) = (Inr (), [])
   \<and> fst (delete example_services example_context example_request example_world)
       = Inr [''id'' \<mapsto> JStr ''ann1'', ''deleted'' \<mapsto> JBool True]
   \<and> scheduled_events
        (new_calls example_world (snd (delete example_services example_context example_request example_world)))
       = []"
proof -
  have h: "delete_service example_services (store example_world) (annotation example_context)
             = (Inr (), [])"
    by (simp add: example_services_def example_world_def example_context_def)
  from delete_acknowledges_without_event [OF h, of example_request] h show ?thesis
    by (simp add: example_context_def example_annotation_def)
qed

section \<open>Read and reindex\<close>

text \<open>
  Claim C4, as the spec states it, promises that \<open>reindex\<close> succeeds whenever the dev-mode
  flag is true. The view calls \<open>search_index.add_annotation\<close> without catching anything, so
  with a search index that raises, the exception is the outcome of \<open>reindex\<close>.
\<close>

theorem reindex_dev_mode_index_failure_counterexample:
  "settings example_request ''h.dev'' = Some True
   \<and> fst (reindex failing_services example_context example_request example_world)
       = Inl (Raised ''ConnectionError'')"
  by (simp add: reindex_def getitem_def called_def failing_services_def example_services_def
        example_request_def example_world_def example_context_def)

text \<open>
  Claim C4, amended. With the flag false, \<open>reindex\<close> ends with \<open>HTTPNotFound\<close>, whatever the
  context, the store and the collaborators are. With the flag true, it makes exactly one
  index update, \<open>add_annotation\<close> of the context's annotation with \<open>refresh=True\<close>; when
  that call returns, the answer is the dictionary \<open>{id: annotation id, indexed: True}\<close>; when
  it raises, \<open>reindex\<close> ends with the same exception.
\<close>

theorem reindex_gated_by_dev_mode:
  "(settings request ''h.dev'' = Some False \<longrightarrow>
      fst (reindex svc ctx request w) = Inl HTTPNotFound)
   \<and> (settings request ''h.dev'' = Some True \<longrightarrow>
        index_updates (new_calls w (snd (reindex svc ctx request w))) = [(annotation ctx, True)]
        \<and> (\<forall>db. add_annotation svc (store w) (annotation ctx) True = (Inr (), db) \<longrightarrow>
               fst (reindex svc ctx request w) =
                 Inr [''id'' \<mapsto> JStr (id' (annotation ctx)), ''indexed'' \<mapsto> JBool True])
        \<and> (\<forall>e db. add_annotation svc (store w) (annotation ctx) True = (Inl e, db) \<longrightarrow>
               fst (reindex svc ctx request w) = Inl e))"
  by (auto simp add: reindex_production reindex_dev new_calls_append split: prod.splits sum.splits)

theorem reindex_gated_by_dev_mode_witness:
  "settings production_request ''h.dev'' = Some False
   \<and> fst (reindex example_services example_context production_request example_world) = Inl HTTPNotFound
   \<and> settings example_request ''h.dev'' = Some True
   \<and> add_annotation example_services (store example_world) (annotation example_context) True
       = (Inr (), [example_annotation])
   \<and> index_updates
        (new_calls example_world (snd (reindex example_services example_context example_request example_world)))
       = [(example_annotation, True)]
   \<and> fst (reindex example_services example_context example_request example_world)
       = Inr [''id'' \<mapsto> JStr ''ann1'', ''indexed'' \<mapsto> JBool True]
   \<and> add_annotation failing_services (store example_world) (annotation example_context) True
       = (Inl (Raised ''ConnectionError''), [example_annotation])
   \<and> fst (reindex failing_services example_context example_request example_world)
       = Inl (Raised ''ConnectionError'')"
  using reindex_gated_by_dev_mode [of production_request example_services example_context example_world]
    reindex_gated_by_dev_mode [of example_request example_services example_context example_world]
    reindex_gated_by_dev_mode [of example_request failing_services example_context example_world]
  by (simp add: production_request_def example_request_def example_services_def failing_services_def
        example_world_def example_context_def example_annotation_def)

text \<open>
  Claim C10. With the flag false, \<open>reindex\<close> raises \<open>HTTPNotFound\<close> and leaves the world as
  it found it: no call is added to the log, so \<open>add_annotation\<close> is not invoked, and the
  store (storage and search index) is the one from before the call.
\<close>

theorem reindex_outside_dev_mode_touches_nothing:
  assumes "settings request ''h.dev'' = Some False"
  shows "reindex svc ctx request w = (Inl HTTPNotFound, w)
         \<and> index_updates (new_calls w (snd (reindex svc ctx request w))) = []
         \<and> store (snd (reindex svc ctx request w)) = store w"
  using assms by (simp add: reindex_production new_calls_def)

theorem reindex_outside_dev_mode_touches_nothing_witness:
  "settings production_request ''h.dev'' = Some False
   \<and> reindex failing_services example_context production_request example_world
       = (Inl HTTPNotFound, example_world)
   \<and> index_updates
        (new_calls example_world (snd (reindex failing_services example_context production_request example_world)))
       = []"
proof -
  have h: "settings production_request ''h.dev'' = Some False"
    by (simp add: production_request_def)
  from reindex_outside_dev_mode_touches_nothing
         [OF h, of failing_services example_context example_world] h
  show ?thesis by (simp add: new_calls_def)
qed

text \<open>
  Claim C9. The presentation service is deterministic: what it returns is a function of the
  store, the annotation and the user. \<open>read\<close> leaves the store as it found it, a second
  \<open>read\<close> right after the first gives the same outcome, and so does a \<open>read\<close> in any world
  whose store is the same (no mutation in between), whatever has been logged meanwhile.
\<close>

theorem read_is_repeatable:
  "store (snd (read svc ctx request w)) = store w
   \<and> fst (read svc ctx request (snd (read svc ctx request w))) = fst (read svc ctx request w)
   \<and> (\<forall>w2. store w2 = store w \<longrightarrow> fst (read svc ctx request w2) = fst (read svc ctx request w))"
  by (simp add: read_unfold)

theorem read_is_repeatable_witness:
  "store (example_world\<lparr>calls := [Present_for_user example_annotation None]\<rparr>) = store example_world
   \<and> fst (read example_services example_context example_request
           (example_world\<lparr>calls := [Present_for_user example_annotation None]\<rparr>))
       = fst (read example_services example_context example_request example_world)
   \<and> fst (read example_services example_context example_request example_world)
       = Inr (JObject [(''id'', JStr ''ann1'')])"
  using read_is_repeatable [of example_services example_context example_request example_world]
  by (simp add: read_unfold example_services_def example_context_def example_annotation_def)

section \<open>Event model\<close>

text \<open>
  Claim C6. The events a view schedules are those it adds to the log. The views that
  schedule events are \<open>create\<close> and \<open>update\<close>, and every event they schedule, on any path,
  carries an action of \<open>AnnotationAction\<close>, that is \<open>create\<close>, \<open>update\<close> or \<open>delete\<close>. The
  views \<open>delete\<close> and \<open>search\<close> schedule none, and neither do \<open>read\<close> and \<open>reindex\<close>,
  whichever way they end.
\<close>

theorem scheduled_actions_are_annotation_actions:
  "(\<forall>ev \<in> set (scheduled_events (new_calls w (snd (create svc request w)))).
      action ev \<in> AnnotationAction)
   \<and> (\<forall>ev \<in> set (scheduled_events (new_calls w (snd (update svc ctx request w)))).
      action ev \<in> AnnotationAction)
   \<and> scheduled_events (new_calls w (snd (delete svc ctx request w))) = []
   \<and> scheduled_events (new_calls w (snd (search svc request w))) = []
   \<and> scheduled_events (new_calls w (snd (read svc ctx request w))) = []
   \<and> scheduled_events (new_calls w (snd (reindex svc ctx request w))) = []"
  using scheduled_events_create [of w svc request] scheduled_events_update [of w svc ctx request]
  by (auto simp add: scheduled_events_delete scheduled_events_search scheduled_events_read
        scheduled_events_reindex AnnotationAction_def)

theorem scheduled_actions_are_annotation_actions_witness:
  "\<lparr>ev_request = example_request, annotation_id = ''ann1'', action = ''create''\<rparr>
     \<in> set (scheduled_events
              (new_calls example_world (snd (create example_services example_request example_world))))
   \<and> action \<lparr>ev_request = example_request, annotation_id = ''ann1'', action = ''create''\<rparr>
       \<in> AnnotationAction
   \<and> \<lparr>ev_request = example_request, annotation_id = ''ann1'', action = ''update''\<rparr>
     \<in> set (scheduled_events
              (new_calls example_world
                 (snd (update example_services example_context example_request example_world))))
   \<and> action \<lparr>ev_request = example_request, annotation_id = ''ann1'', action = ''update''\<rparr>
       \<in> AnnotationAction
   \<and> scheduled_events
        (new_calls example_world (snd (read example_services example_context example_request example_world)))
       = []
   \<and> scheduled_events
        (new_calls example_world (snd (reindex example_services example_context example_request example_world)))
       = []"
proof -
  have c: "\<lparr>ev_request = example_request, annotation_id = ''ann1'', action = ''create''\<rparr>
     \<in> set (scheduled_events
              (new_calls example_world (snd (create example_services example_request example_world))))"
    by (simp add: create_def called_def publish_annotation_event_def new_calls_def
          example_services_def example_world_def example_annotation_def)
  have u: "\<lparr>ev_request = example_request, annotation_id = ''ann1'', action = ''update''\<rparr>
     \<in> set (scheduled_events
              (new_calls example_world
                 (snd (update example_services example_context example_request example_world))))"
    by (simp add: update_def called_def publish_annotation_event_def new_calls_def
          example_services_def example_world_def example_annotation_def example_context_def)
  from scheduled_actions_are_annotation_actions
         [of example_world example_services example_request example_context] c u
  show ?thesis by blast
qed

section \<open>Search aggregator\<close>

text \<open>
  Claim C3. \<open>separate_replies\<close> is what \<open>params.pop("_separate_replies", False)\<close> gave, and
  the flag is true when that value is truthy, as in \<open>if separate_replies:\<close>. Whenever
  \<open>search\<close> returns a response, the response has the key \<open>rows\<close>, and it has the key
  \<open>replies\<close> exactly when the flag is true. In that case two identifier sequences were
  handed to the presentation service, first the one for \<open>rows\<close>, then the one for
  \<open>replies\<close>, and they have no identifier in common, provided the result of the search
  library satisfies the invariant of the spec.
\<close>

theorem search_response_keys:
  assumes "validate_query_params svc (store w) (params request) = Inr validated"
      and "pop validated ''_separate_replies'' (PBool False) = (separate_replies, params1)"
      and "search_run svc (store w) request separate_replies params1 = Inr result"
      and "fst (search svc request w) = Inr out"
  shows "''rows'' \<in> dom out
         \<and> (''replies'' \<in> dom out \<longleftrightarrow> truthy separate_replies)
         \<and> (truthy separate_replies \<and> search_result_invariant result \<longrightarrow>
              (\<exists>row_ids reply_ids.
                 presented_ids (new_calls w (snd (search svc request w))) = [row_ids, reply_ids]
                 \<and> set reply_ids \<inter> set row_ids = {}))"
proof (cases "present_all_for_user svc (store w) (annotation_ids result) (user request)")
  case (Inl e)
  with assms show ?thesis by (simp add: search_found)
next
  case rows: (Inr rows)
  show ?thesis
  proof (cases "truthy separate_replies")
    case False
    with assms rows show ?thesis by (auto simp add: search_found)
  next
    case True
    with assms rows show ?thesis
      by (auto simp add: search_found new_calls_append search_result_invariant_def
            split: sum.splits)
  qed
qed

theorem search_response_keys_witness:
  "validate_query_params example_services (store example_world) (params example_request)
     = Inr (map_of [(''q'', PStr ''foo''), (''_separate_replies'', PBool True)])
   \<and> pop (map_of [(''q'', PStr ''foo''), (''_separate_replies'', PBool True)])
         ''_separate_replies'' (PBool False)
       = (PBool True, [''q'' \<mapsto> PStr ''foo''])
   \<and> search_run example_services (store example_world) example_request (PBool True)
         [''q'' \<mapsto> PStr ''foo'']
       = Inr \<lparr>total' = 2, annotation_ids = [''a1''], reply_ids = [''r1'']\<rparr>
   \<and> search_result_invariant \<lparr>total' = 2, annotation_ids = [''a1''], reply_ids = [''r1'']\<rparr>
   \<and> fst (search example_services example_request example_world)
       = Inr [''total'' \<mapsto> JInt 2, ''rows'' \<mapsto> JList [JObject [(''id'', JStr ''a1'')]],
              ''replies'' \<mapsto> JList [JObject [(''id'', JStr ''r1'')]]]
   \<and> truthy (PBool True)
   \<and> ''rows'' \<in> dom [''total'' \<mapsto> JInt 2, ''rows'' \<mapsto> JList [JObject [(''id'', JStr ''a1'')]],
              ''replies'' \<mapsto> JList [JObject [(''id'', JStr ''r1'')]]]
   \<and> ''replies'' \<in> dom [''total'' \<mapsto> JInt 2, ''rows'' \<mapsto> JList [JObject [(''id'', JStr ''a1'')]],
              ''replies'' \<mapsto> JList [JObject [(''id'', JStr ''r1'')]]]
   \<and> presented_ids (new_calls example_world (snd (search example_services example_request example_world)))
       = [[''a1''], [''r1'']]"
proof -
  have v: "validate_query_params example_services (store example_world) (params example_request)
             = Inr (map_of [(''q'', PStr ''foo''), (''_separate_replies'', PBool True)])"
    by (simp add: example_services_def example_request_def)
  have p: "pop (map_of [(''q'', PStr ''foo''), (''_separate_replies'', PBool True)])
             ''_separate_replies'' (PBool False)
           = (PBool True, [''q'' \<mapsto> PStr ''foo''])"
    by (simp add: pop_def)
  have r: "search_run example_services (store example_world) example_request (PBool True)
             [''q'' \<mapsto> PStr ''foo'']
           = Inr \<lparr>total' = 2, annotation_ids = [''a1''], reply_ids = [''r1'']\<rparr>"
    by (simp add: example_services_def)
  have i: "search_result_invariant \<lparr>total' = 2, annotation_ids = [''a1''], reply_ids = [''r1'']\<rparr>"
    by (simp add: search_result_invariant_def)
  have s: "search example_services example_request example_world =
             (Inr [''total'' \<mapsto> JInt 2, ''rows'' \<mapsto> JList [JObject [(''id'', JStr ''a1'')]],
                   ''replies'' \<mapsto> JList [JObject [(''id'', JStr ''r1'')]]],
              \<lparr>store = store example_world,
               calls = [Search_run example_request (PBool True) [''q'' \<mapsto> PStr ''foo''],
                        Present_all_for_user [''a1''] (user example_request),
                        Present_all_for_user [''r1''] (user example_request)]\<rparr>)"
    by (simp add: search_found [OF v p r]) (simp add: example_services_def example_world_def)
  from search_response_keys [OF v p r, of "[''total'' \<mapsto> JInt 2,
      ''rows'' \<mapsto> JList [JObject [(''id'', JStr ''a1'')]],
      ''replies'' \<mapsto> JList [JObject [(''id'', JStr ''r1'')]]]"] v p r i s
  show ?thesis by (simp add: new_calls_def example_world_def)
qed

text \<open>
  Claim C7. Every \<open>Search(...).run(params)\<close> that \<open>search\<close> makes receives parameters
  without the key \<open>_separate_replies\<close>. When validation returns, there is exactly one such
  run; its flag is \<open>False\<close> when the validated parameters have no such key and the value
  stored under the key otherwise, and its parameters are the validated ones with that key
  removed and every other key unchanged.
\<close>

theorem separate_replies_popped_before_search:
  "(\<forall>c \<in> set (search_runs (new_calls w (snd (search svc request w)))).
      ''_separate_replies'' \<notin> dom (snd c))
   \<and> (\<forall>validated.
        validate_query_params svc (store w) (params request) = Inr validated \<longrightarrow>
        (\<exists>separate_replies forwarded.
           search_runs (new_calls w (snd (search svc request w))) = [(separate_replies, forwarded)]
           \<and> (validated ''_separate_replies'' = None \<longrightarrow> separate_replies = PBool False)
           \<and> (\<forall>v. validated ''_separate_replies'' = Some v \<longrightarrow> separate_replies = v)
           \<and> ''_separate_replies'' \<notin> dom forwarded
           \<and> (\<forall>k. k \<noteq> ''_separate_replies'' \<longrightarrow> forwarded k = validated k)))"
proof (cases "validate_query_params svc (store w) (params request)")
  case (Inl e)
  then show ?thesis by (simp add: search_invalid new_calls_def)
next
  case v: (Inr validated)
  obtain separate_replies params1
    where p: "pop validated ''_separate_replies'' (PBool False) = (separate_replies, params1)"
    by (cases "pop validated ''_separate_replies'' (PBool False)")
  have runs: "search_runs (new_calls w (snd (search svc request w))) = [(separate_replies, params1)]"
  proof (cases "search_run svc (store w) request separate_replies params1")
    case (Inl e)
    from search_unavailable [OF v p Inl] show ?thesis by (simp add: new_calls_append)
  next
    case (Inr result)
    from search_found [OF v p Inr] show ?thesis
      by (simp add: new_calls_append split: sum.splits)
  qed
  from p have "''_separate_replies'' \<notin> dom params1"
    and "\<And>k. k \<noteq> ''_separate_replies'' \<Longrightarrow> params1 k = validated k"
    and "validated ''_separate_replies'' = None \<Longrightarrow> separate_replies = PBool False"
    and "\<And>v. validated ''_separate_replies'' = Some v \<Longrightarrow> separate_replies = v"
    by (auto simp add: pop_def)
  with runs v show ?thesis by simp
qed

theorem separate_replies_popped_before_search_witness:
  "validate_query_params example_services (store example_world) (params plain_request)
     = Inr [''q'' \<mapsto> PStr ''foo'']
   \<and> [''q'' \<mapsto> PStr ''foo''] ''_separate_replies'' = None
   \<and> map fst (search_runs (new_calls example_world (snd (search example_services plain_request example_world))))
       = [PBool False]
   \<and> validate_query_params example_services (store example_world) (params example_request)
       = Inr (map_of [(''q'', PStr ''foo''), (''_separate_replies'', PBool True)])
   \<and> (map_of [(''q'', PStr ''foo''), (''_separate_replies'', PBool True)]) ''_separate_replies''
       = Some (PBool True)
   \<and> map fst (search_runs (new_calls example_world (snd (search example_services example_request example_world))))
       = [PBool True]
   \<and> (PBool True, [''q'' \<mapsto> PStr ''foo''])
       \<in> set (search_runs (new_calls example_world (snd (search example_services example_request example_world))))
   \<and> ''_separate_replies'' \<notin> dom (snd (PBool True, [''q'' \<mapsto> PStr ''foo'']))"
proof -
  have v1: "validate_query_params example_services (store example_world) (params plain_request)
              = Inr [''q'' \<mapsto> PStr ''foo'']"
    by (simp add: example_services_def plain_request_def example_request_def)
  have v2: "validate_query_params example_services (store example_world) (params example_request)
              = Inr (map_of [(''q'', PStr ''foo''), (''_separate_replies'', PBool True)])"
    by (simp add: example_services_def example_request_def)
  have m: "(PBool True, [''q'' \<mapsto> PStr ''foo''])
       \<in> set (search_runs (new_calls example_world (snd (search example_services example_request example_world))))"
    by (simp add: search_def pop_def called_def new_calls_def example_services_def
          example_request_def example_world_def)
  from separate_replies_popped_before_search [of example_world example_services plain_request]
       separate_replies_popped_before_search [of example_world example_services example_request]
       v1 v2 m
  show ?thesis by auto
qed

text \<open>
  Claim C8. Whenever the search library returns a result, the presentation calls that
  \<open>search\<close> makes are bulk calls only: one \<open>present_all_for_user\<close> with
  \<open>result.annotation_ids\<close> as returned, followed, when the flag is true and the first call
  returned, by one \<open>present_all_for_user\<close> with \<open>result.reply_ids\<close> as returned; there is
  no \<open>present_for_user\<close> call. In a response, \<open>rows\<close> and \<open>replies\<close> are the lists these
  two calls returned, unchanged.
\<close>

theorem search_presents_in_bulk_in_search_order:
  assumes "validate_query_params svc (store w) (params request) = Inr validated"
      and "pop validated ''_separate_replies'' (PBool False) = (separate_replies, params1)"
      and "search_run svc (store w) request separate_replies params1 = Inr result"
  shows "presentation_calls (new_calls w (snd (search svc request w))) =
           (case present_all_for_user svc (store w) (annotation_ids result) (user request) of
              Inl e \<Rightarrow> [Present_all_for_user (annotation_ids result) (user request)]
            | Inr rows \<Rightarrow>
                if truthy separate_replies
                then [Present_all_for_user (annotation_ids result) (user request),
                      Present_all_for_user (reply_ids result) (user request)]
                else [Present_all_for_user (annotation_ids result) (user request)])
         \<and> (\<forall>out. fst (search svc request w) = Inr out \<longrightarrow>
               (\<exists>rows. present_all_for_user svc (store w) (annotation_ids result) (user request)
                          = Inr rows
                        \<and> out ''rows'' = Some (JList rows))
               \<and> (truthy separate_replies \<longrightarrow>
                    (\<exists>replies. present_all_for_user svc (store w) (reply_ids result) (user request)
                                 = Inr replies
                               \<and> out ''replies'' = Some (JList replies))))"
proof (cases "present_all_for_user svc (store w) (annotation_ids result) (user request)")
  case (Inl e)
  with search_found [OF assms] show ?thesis by (simp add: new_calls_append)
next
  case rows: (Inr rows)
  show ?thesis
  proof (cases "truthy separate_replies")
    case False
    with rows search_found [OF assms] show ?thesis by (auto simp add: new_calls_append)
  next
    case True
    show ?thesis
    proof (cases "present_all_for_user svc (store w) (reply_ids result) (user request)")
      case (Inl e)
      with True rows search_found [OF assms] show ?thesis by (simp add: new_calls_append)
    next
      case (Inr replies)
      with True rows search_found [OF assms] show ?thesis by (auto simp add: new_calls_append)
    qed
  qed
qed

theorem search_presents_in_bulk_in_search_order_witness:
  "validate_query_params example_services (store example_world) (params example_request)
     = Inr (map_of [(''q'', PStr ''foo''), (''_separate_replies'', PBool True)])
   \<and> pop (map_of [(''q'', PStr ''foo''), (''_separate_replies'', PBool True)])
         ''_separate_replies'' (PBool False)
       = (PBool True, [''q'' \<mapsto> PStr ''foo''])
   \<and> search_run example_services (store example_world) example_request (PBool True)
         [''q'' \<mapsto> PStr ''foo'']
       = Inr \<lparr>total' = 2, annotation_ids = [''a1''], reply_ids = [''r1'']\<rparr>
   \<and> presentation_calls
        (new_calls example_world (snd (search example_services example_request example_world)))
       = [Present_all_for_user [''a1''] (Some ''acct:jo@example.com''),
          Present_all_for_user [''r1''] (Some ''acct:jo@example.com'')]"
proof -
  have v: "validate_query_params example_services (store example_world) (params example_request)
             = Inr (map_of [(''q'', PStr ''foo''), (''_separate_replies'', PBool True)])"
    by (simp add: example_services_def example_request_def)
  have p: "pop (map_of [(''q'', PStr ''foo''), (''_separate_replies'', PBool True)])
             ''_separate_replies'' (PBool False)
           = (PBool True, [''q'' \<mapsto> PStr ''foo''])"
    by (simp add: pop_def)
  have r: "search_run example_services (store example_world) example_request (PBool True)
             [''q'' \<mapsto> PStr ''foo'']
           = Inr \<lparr>total' = 2, annotation_ids = [''a1''], reply_ids = [''r1'']\<rparr>"
    by (simp add: example_services_def)
  from search_presents_in_bulk_in_search_order [OF v p r] v p r show ?thesis
    by (simp add: example_services_def example_request_def)
qed

end
